theory Spec2Isabelle
  imports Complex_Main "HOL-Library.Sublist"
begin

section \<open>Python values reaching the formatting function\<close>

text \<open>
  \<^verbatim>\<open>formatting_prompts_func(example)\<close> of \<^verbatim>\<open>src/example/qlora.py\<close> reads
  \<^verbatim>\<open>example['instruction']\<close>, \<^verbatim>\<open>example['input']\<close> and \<^verbatim>\<open>example['output']\<close>, takes
  \<^verbatim>\<open>len\<close> of the first and indexes all three with \<^verbatim>\<open>[i]\<close>. Python is dynamically
  typed, so a field is any sequence of text: a list of strings (a batch in column form)
  or a single string, whose \<^verbatim>\<open>len\<close> counts characters and whose \<^verbatim>\<open>[i]\<close> is the
  one-character string at position \<open>i\<close>. Both shapes are values of \<open>pyval\<close>.
  Text is \<open>string\<close>; the template is ASCII, where characters and bytes coincide.
\<close>

datatype pyval = PStr string | PList "string list"

datatype pyerr = KeyError string | IndexError

type_synonym example = "string \<rightharpoonup> pyval"

text \<open>\<^verbatim>\<open>example[k]\<close>: a missing key raises \<^verbatim>\<open>KeyError\<close>.\<close>

definition dict_getitem :: "example \<Rightarrow> string \<Rightarrow> pyerr + pyval" where
  "dict_getitem d k = (case d k of None \<Rightarrow> Inl (KeyError k) | Some v \<Rightarrow> Inr v)"

text \<open>\<^verbatim>\<open>len(v)\<close>.\<close>

fun py_len :: "pyval \<Rightarrow> nat" where
  "py_len (PStr s) = length s"
| "py_len (PList xs) = length xs"

text \<open>
  \<^verbatim>\<open>v[i]\<close> for \<open>i \<ge> 0\<close> (the indices come from \<^verbatim>\<open>range\<close>), interpolated into an
  f-string: out of range raises \<^verbatim>\<open>IndexError\<close>; a string formats as itself.
\<close>

fun seq_getitem :: "pyval \<Rightarrow> nat \<Rightarrow> pyerr + string" where
  "seq_getitem (PStr s) i = (if i < length s then Inr [s ! i] else Inl IndexError)"
| "seq_getitem (PList xs) i = (if i < length xs then Inr (xs ! i) else Inl IndexError)"

text \<open>\<^verbatim>\<open>example[k][i]\<close>.\<close>

definition field_at :: "example \<Rightarrow> string \<Rightarrow> nat \<Rightarrow> pyerr + string" where
  "field_at ex k i =
     (case dict_getitem ex k of Inl e \<Rightarrow> Inl e | Inr v \<Rightarrow> seq_getitem v i)"

section \<open>The formatting function\<close>

text \<open>
  The body of the loop: the f-string of line 90, its three fields evaluated left to
  right, so the first failing lookup is the exception raised.
\<close>

definition format_text :: "example \<Rightarrow> nat \<Rightarrow> pyerr + string" where
  "format_text ex i =
     (case field_at ex ''instruction'' i of Inl e \<Rightarrow> Inl e | Inr a \<Rightarrow>
     (case field_at ex ''input'' i of Inl e \<Rightarrow> Inl e | Inr b \<Rightarrow>
     (case field_at ex ''output'' i of Inl e \<Rightarrow> Inl e | Inr c \<Rightarrow>
        Inr (''Below is an instruction that describes a task, paired with an input that provides further context. Write a response that appropriately completes the request.\<newline>\<newline>### Instruction:\<newline>''
             @ a @ ''\<newline>\<newline>### Input:\<newline>'' @ b @ ''\<newline>\<newline>### Response:\<newline>'' @ c))))"

text \<open>
  \<^verbatim>\<open>for i in range(...): ... output_texts.append(text)\<close>: the indices still to visit and
  the list built so far; an exception leaves the loop and the function.
\<close>

fun format_loop :: "example \<Rightarrow> nat list \<Rightarrow> string list \<Rightarrow> pyerr + string list" where
  "format_loop ex [] output_texts = Inr output_texts"
| "format_loop ex (i # rest) output_texts =
     (case format_text ex i of
        Inl e \<Rightarrow> Inl e
      | Inr text \<Rightarrow> format_loop ex rest (output_texts @ [text]))"

definition formatting_prompts_func :: "example \<Rightarrow> pyerr + string list" where
  "formatting_prompts_func ex =
     (case dict_getitem ex ''instruction'' of
        Inl e \<Rightarrow> Inl e
      | Inr v \<Rightarrow> format_loop ex [0..<py_len v] [])"

text \<open>
  The prompt template as the specification prints it (section 6), with the three
  fields substituted.
\<close>

definition spec_prompt_template :: "string \<Rightarrow> string \<Rightarrow> string \<Rightarrow> string" where
  "spec_prompt_template instruction inp outp =
     ''Below is an instruction that describes a task, paired with an input that provides further context. Write a response that appropriately completes the request.''
     @ ''\<newline>\<newline>### Instruction:\<newline>'' @ instruction
     @ ''\<newline>\<newline>### Input:\<newline>'' @ inp
     @ ''\<newline>\<newline>### Response:\<newline>'' @ outp"

text \<open>A batch in column form: the three fields as lists of strings.\<close>

definition batch :: "string list \<Rightarrow> string list \<Rightarrow> string list \<Rightarrow> example" where
  "batch ins inps outs =
     [''instruction'' \<mapsto> PList ins, ''input'' \<mapsto> PList inps, ''output'' \<mapsto> PList outs]"

text \<open>A single record whose three fields are plain text.\<close>

definition single_record :: "string \<Rightarrow> string \<Rightarrow> string \<Rightarrow> example" where
  "single_record instruction inp outp =
     [''instruction'' \<mapsto> PStr instruction, ''input'' \<mapsto> PStr inp, ''output'' \<mapsto> PStr outp]"

section \<open>Configuration\<close>

definition MODEL_ID :: string where
  "MODEL_ID = ''facebook/opt-125m''"

definition DATASET_ID :: string where
  "DATASET_ID = ''tatsu-lab/alpaca''"

definition OUTPUT_DIR :: string where
  "OUTPUT_DIR = ''./phi-2-alpaca-qlora''"

definition MAX_SEQ_LENGTH :: nat where
  "MAX_SEQ_LENGTH = 512"

datatype torch_dtype = float16 | bfloat16 | float32

record BitsAndBytesConfig =
  load_in_4bit :: bool
  bnb_4bit_quant_type :: string
  bnb_4bit_compute_dtype :: torch_dtype
  bnb_4bit_use_double_quant :: bool

definition bnb_config :: BitsAndBytesConfig where
  "bnb_config = \<lparr>load_in_4bit = True, bnb_4bit_quant_type = ''nf4'',
     bnb_4bit_compute_dtype = float16, bnb_4bit_use_double_quant = False\<rparr>"

text \<open>The decimal literals of the source are kept as exact rationals.\<close>

record LoraConfig =
  r :: nat
  lora_alpha :: nat
  lora_dropout :: rat
  bias :: string
  task_type :: string

definition peft_config :: LoraConfig where
  "peft_config = \<lparr>r = 16, lora_alpha = 32, lora_dropout = 5 / 100, bias = ''none'',
     task_type = ''CAUSAL_LM''\<rparr>"

record TrainingArguments =
  output_dir :: string
  num_train_epochs :: nat
  per_device_train_batch_size :: nat
  gradient_accumulation_steps :: nat
  optim :: string
  logging_steps :: nat
  learning_rate :: rat
  weight_decay :: rat
  fp16 :: bool
  save_strategy :: string
  report_to :: string

definition training_arguments :: TrainingArguments where
  "training_arguments = \<lparr>output_dir = OUTPUT_DIR, num_train_epochs = 1,
     per_device_train_batch_size = 4, gradient_accumulation_steps = 1,
     optim = ''paged_adamw_32bit'', logging_steps = 10, learning_rate = 2 / 10000,
     weight_decay = 1 / 1000, fp16 = True, save_strategy = ''epoch'',
     report_to = ''none''\<rparr>"

section \<open>Handles, library calls and the state of a run\<close>

text \<open>
  The model handle as far as the script and the specification observe it: the two
  configuration attributes the script assigns, the parameters with their flags, and
  whether gradient checkpointing is on. \<open>pretraining_tp\<close> is absent until assigned.
\<close>

record model_config =
  use_cache :: bool
  pretraining_tp :: "nat option"

record param =
  pname :: string
  adapter :: bool
  requires_grad :: bool
  quantized :: bool

record model =
  config :: model_config
  parameters :: "param list"
  gradient_checkpointing :: bool

text \<open>The tokenizer handle: \<^verbatim>\<open>None\<close> is an undefined special token.\<close>

record tokenizer =
  pad_token :: "string option"
  eos_token :: "string option"

text \<open>One dataset record: its named text fields.\<close>

type_synonym row = "string \<rightharpoonup> string"

text \<open>
  The failure classes of the wrapped libraries (specification, section 7). The script
  has no \<^verbatim>\<open>try\<close>: an exception of a library call leaves \<^verbatim>\<open>finetune_model\<close>.
\<close>

datatype exn =
    ResolutionError string
  | ConfigurationError string
  | ResourceError string
  | TrainingError string

text \<open>
  What a call leaves on disk: directories with what was serialized into them. A
  checkpoint is the model state at the end of an epoch.
\<close>

datatype artifact =
    AdapterFiles "param list"
  | TokenizerFiles tokenizer
  | Checkpoint nat model

type_synonym written = "(string \<times> artifact) list"

text \<open>
  The libraries are not part of the repository: what each call returns or raises is a
  parameter of the run. \<open>'t\<close> is the trainer object. The trainer is given
  \<^verbatim>\<open>training_arguments\<close>, with its \<^verbatim>\<open>output_dir\<close> and \<^verbatim>\<open>save_strategy\<close>, and the two saves
  are given \<^verbatim>\<open>OUTPUT_DIR\<close>: building the trainer, training and saving come with the
  files they write, whether they return or raise.
\<close>

record 't libs =
  from_pretrained_model :: "string \<Rightarrow> BitsAndBytesConfig \<Rightarrow> string \<Rightarrow> bool \<Rightarrow> exn + model"
  prepare_model_for_kbit_training :: "model \<Rightarrow> exn + model"
  get_peft_model :: "model \<Rightarrow> LoraConfig \<Rightarrow> exn + model"
  from_pretrained_tokenizer :: "string \<Rightarrow> bool \<Rightarrow> exn + tokenizer"
  load_dataset :: "string \<Rightarrow> string \<Rightarrow> exn + row list"
  SFTTrainer :: "model \<Rightarrow> row list \<Rightarrow> LoraConfig \<Rightarrow> TrainingArguments \<Rightarrow>
                 (example \<Rightarrow> pyerr + string list) \<Rightarrow> (exn + 't) \<times> written"
  train :: "'t \<Rightarrow> (exn + 't) \<times> written"
  trainer_model :: "'t \<Rightarrow> model"
  model_save_pretrained :: "model \<Rightarrow> string \<Rightarrow> (exn + unit) \<times> written"
  tokenizer_save_pretrained :: "tokenizer \<Rightarrow> string \<Rightarrow> (exn + unit) \<times> written"

text \<open>
  The statements of \<^verbatim>\<open>finetune_model\<close> that act on the outside, in the order they are
  executed, each with how it ended.
\<close>

datatype call =
    Print string
  | ModelFromPretrained string BitsAndBytesConfig
  | SetUseCache bool
  | SetPretrainingTp nat
  | PrepareModelForKbitTraining
  | GetPeftModel LoraConfig
  | TokenizerFromPretrained string
  | SetPadToken
  | LoadDataset string string
  | SFTTrainerInit
  | Train
  | ModelSavePretrained string
  | TokenizerSavePretrained string

datatype outcome = Returned | Raised exn

text \<open>
  The state of a run: the calls made so far, and the files written so far, each with
  the call that wrote it and its directory.
\<close>

record world =
  trace :: "(call \<times> outcome) list"
  files :: "(call \<times> string \<times> artifact) list"

type_synonym 'a step = "world \<Rightarrow> (exn + 'a) \<times> world"

definition returns :: "'a \<Rightarrow> 'a step" where
  "returns x w = (Inr x, w)"

text \<open>Sequencing: an exception skips everything after it.\<close>

definition bind_step :: "'a step \<Rightarrow> ('a \<Rightarrow> 'b step) \<Rightarrow> 'b step" where
  "bind_step m f w = (case m w of (Inl e, w') \<Rightarrow> (Inl e, w') | (Inr x, w') \<Rightarrow> f x w')"

text \<open>
  A library call that is given no directory to write to (loading, preparing, fetching):
  it returns or raises, and is recorded.
\<close>

definition lib_call :: "call \<Rightarrow> exn + 'a \<Rightarrow> 'a step" where
  "lib_call c res w =
     (res, w\<lparr>trace := trace w @ [(c, case res of Inl e \<Rightarrow> Raised e | Inr _ \<Rightarrow> Returned)]\<rparr>)"

text \<open>A print or an attribute assignment: it cannot fail.\<close>

definition statement :: "call \<Rightarrow> unit step" where
  "statement c = lib_call c (Inr ())"

text \<open>
  A library call that writes: it returns or raises like any other, and what it wrote
  by then is on disk.
\<close>

definition writing_call :: "call \<Rightarrow> (exn + 'a) \<times> written \<Rightarrow> 'a step" where
  "writing_call c res w =
     (fst res,
      w\<lparr>trace := trace w @ [(c, case fst res of Inl e \<Rightarrow> Raised e | Inr _ \<Rightarrow> Returned)],
        files := files w @ map (Pair c) (snd res)\<rparr>)"

section \<open>The script\<close>

text \<open>Lines 57 to 75 of \<^verbatim>\<open>finetune_model\<close>: the model.\<close>

definition model_acquisition :: "'t libs \<Rightarrow> model step" where
  "model_acquisition L =
     bind_step (statement (Print (''Loading Model: '' @ MODEL_ID @ ''...''))) (\<lambda>_.
     bind_step (lib_call (ModelFromPretrained MODEL_ID bnb_config)
                  (from_pretrained_model L MODEL_ID bnb_config ''auto'' True)) (\<lambda>model.
     bind_step (statement (SetUseCache False)) (\<lambda>_.
     bind_step (returns (model\<lparr>config := (config model)\<lparr>use_cache := False\<rparr>\<rparr>)) (\<lambda>model.
     bind_step (statement (SetPretrainingTp 1)) (\<lambda>_.
     bind_step (returns (model\<lparr>config := (config model)\<lparr>pretraining_tp := Some 1\<rparr>\<rparr>)) (\<lambda>model.
     bind_step (lib_call PrepareModelForKbitTraining
                  (prepare_model_for_kbit_training L model)) (\<lambda>model.
     bind_step (lib_call (GetPeftModel peft_config)
                  (get_peft_model L model peft_config)) (\<lambda>model.
     bind_step (statement (Print ''Model ready for PEFT/QLoRA.'')) (\<lambda>_.
     returns model)))))))))"

text \<open>Lines 77 to 79: the tokenizer; the padding token is assigned without a test.\<close>

definition tokenizer_acquisition :: "'t libs \<Rightarrow> tokenizer step" where
  "tokenizer_acquisition L =
     bind_step (lib_call (TokenizerFromPretrained MODEL_ID)
                  (from_pretrained_tokenizer L MODEL_ID True)) (\<lambda>tokenizer.
     bind_step (statement SetPadToken) (\<lambda>_.
     returns (tokenizer\<lparr>pad_token := eos_token tokenizer\<rparr>)))"

text \<open>Lines 81 to 83: the dataset.\<close>

definition dataset_acquisition :: "'t libs \<Rightarrow> (row list) step" where
  "dataset_acquisition L =
     bind_step (statement (Print (''Loading Dataset: '' @ DATASET_ID @ ''...''))) (\<lambda>_.
     lib_call (LoadDataset DATASET_ID ''train[:500]'')
       (load_dataset L DATASET_ID ''train[:500]''))"

text \<open>Lines 94 to 109: the trainer, the training call and the two saves.\<close>

definition training_orchestration ::
  "'t libs \<Rightarrow> model \<Rightarrow> tokenizer \<Rightarrow> row list \<Rightarrow> unit step" where
  "training_orchestration L model tokenizer dataset =
     bind_step (writing_call SFTTrainerInit
                  (SFTTrainer L model dataset peft_config training_arguments
                     formatting_prompts_func)) (\<lambda>trainer.
     bind_step (statement (Print ''Starting Fine-Tuning...'')) (\<lambda>_.
     bind_step (writing_call Train (train L trainer)) (\<lambda>trainer.
     bind_step (writing_call (ModelSavePretrained OUTPUT_DIR)
                  (model_save_pretrained L (trainer_model L trainer) OUTPUT_DIR)) (\<lambda>_.
     bind_step (writing_call (TokenizerSavePretrained OUTPUT_DIR)
                  (tokenizer_save_pretrained L tokenizer OUTPUT_DIR)) (\<lambda>_.
     statement (Print (''Fine-tuning complete. Model adapters saved to '' @ OUTPUT_DIR)))))))"

definition finetune_model :: "'t libs \<Rightarrow> unit step" where
  "finetune_model L =
     bind_step (model_acquisition L) (\<lambda>model.
     bind_step (tokenizer_acquisition L) (\<lambda>tokenizer.
     bind_step (dataset_acquisition L) (\<lambda>dataset.
     training_orchestration L model tokenizer dataset)))"

text \<open>
  \<^verbatim>\<open>if __name__ == "__main__": finetune_model()\<close>: the exit status of the process, 1
  when an exception reaches the top level.
\<close>

definition script_main :: "'t libs \<Rightarrow> world \<Rightarrow> nat \<times> world" where
  "script_main L w =
     (case finetune_model L w of (Inl e, w') \<Rightarrow> (1, w') | (Inr u, w') \<Rightarrow> (0, w'))"

text \<open>What a run added to the trace, and the predicates the claims use on it.\<close>

definition new_calls :: "world \<Rightarrow> world \<Rightarrow> (call \<times> outcome) list" where
  "new_calls w w' = drop (length (trace w)) (trace w')"

text \<open>The calls of the model block, in the order of the source.\<close>

definition model_steps :: "call list" where
  "model_steps =
     [Print (''Loading Model: '' @ MODEL_ID @ ''...''),
      ModelFromPretrained MODEL_ID bnb_config,
      SetUseCache False,
      SetPretrainingTp 1,
      PrepareModelForKbitTraining,
      GetPeftModel peft_config,
      Print ''Model ready for PEFT/QLoRA.'']"

fun is_save :: "call \<Rightarrow> bool" where
  "is_save (ModelSavePretrained d) = True"
| "is_save (TokenizerSavePretrained d) = True"
| "is_save c = False"

text \<open>What a run wrote, the calls up to the training call and the calls after it.\<close>

definition new_files :: "world \<Rightarrow> world \<Rightarrow> (call \<times> string \<times> artifact) list" where
  "new_files w w' = drop (length (files w)) (files w')"





section \<open>The libraries, as the specification describes them\<close>

text \<open>
  What identifiers resolve to outside the process: parameter names of a pretrained
  model, a tokenizer, the records of a named split of a dataset.
\<close>

record hub =
  hub_models :: "string \<rightharpoonup> string list"
  hub_tokenizers :: "string \<rightharpoonup> tokenizer"
  hub_datasets :: "string \<Rightarrow> string \<rightharpoonup> row list"

text \<open>
  Modelled from the spec: \<^verbatim>\<open>AutoModelForCausalLM.from_pretrained\<close> is library code, not
  under \<^verbatim>\<open>src/\<close>. Section 4.2 (a): the base weights are loaded with quantization
  applied at load time; an unresolvable identifier is a fatal error.
\<close>

definition spec_from_pretrained_model ::
  "hub \<Rightarrow> string \<Rightarrow> BitsAndBytesConfig \<Rightarrow> string \<Rightarrow> bool \<Rightarrow> exn + model" where
  "spec_from_pretrained_model H ident quantization_config device_map trust_remote_code =
     (case hub_models H ident of
        None \<Rightarrow> Inl (ResolutionError ident)
      | Some names \<Rightarrow>
          Inr \<lparr>config = \<lparr>use_cache = True, pretraining_tp = None\<rparr>,
               parameters = map (\<lambda>n. \<lparr>pname = n, adapter = False, requires_grad = True,
                                       quantized = load_in_4bit quantization_config\<rparr>) names,
               gradient_checkpointing = False\<rparr>)"

text \<open>
  Modelled from the spec: \<^verbatim>\<open>prepare_model_for_kbit_training\<close> is library code, not
  under \<^verbatim>\<open>src/\<close>. Section 4.2 (c): the preparation enables gradient checkpointing
  (the upcasting of normalization layers is numeric and left out).
\<close>

definition spec_prepare_model_for_kbit_training :: "model \<Rightarrow> exn + model" where
  "spec_prepare_model_for_kbit_training m = Inr (m\<lparr>gradient_checkpointing := True\<rparr>)"

text \<open>
  Modelled from the spec: \<^verbatim>\<open>get_peft_model\<close> is library code, not under \<^verbatim>\<open>src/\<close>.
  Section 4.2 (d): low-rank adapters are injected into the attention/projection layers
  (the layers \<open>targets\<close> selects), and every parameter that is not an adapter is frozen.
\<close>

definition lora_params :: "param \<Rightarrow> param list" where
  "lora_params p =
     [\<lparr>pname = pname p @ ''.lora_A'', adapter = True, requires_grad = True, quantized = False\<rparr>,
      \<lparr>pname = pname p @ ''.lora_B'', adapter = True, requires_grad = True, quantized = False\<rparr>]"

definition spec_get_peft_model ::
  "(string \<Rightarrow> bool) \<Rightarrow> model \<Rightarrow> LoraConfig \<Rightarrow> exn + model" where
  "spec_get_peft_model targets m cfg =
     Inr (m\<lparr>parameters :=
            map (\<lambda>p. p\<lparr>requires_grad := False\<rparr>) (parameters m)
            @ concat (map lora_params (filter (\<lambda>p. targets (pname p)) (parameters m)))\<rparr>)"

text \<open>
  Modelled from the spec: \<^verbatim>\<open>AutoTokenizer.from_pretrained\<close> is library code, not under
  \<^verbatim>\<open>src/\<close>. Section 4.3: the tokenizer paired with the identifier, or a fatal error.
\<close>

definition spec_from_pretrained_tokenizer :: "hub \<Rightarrow> string \<Rightarrow> bool \<Rightarrow> exn + tokenizer" where
  "spec_from_pretrained_tokenizer H ident trust_remote_code =
     (case hub_tokenizers H ident of
        None \<Rightarrow> Inl (ResolutionError ident)
      | Some t \<Rightarrow> Inr t)"

text \<open>
  Modelled from the spec: \<^verbatim>\<open>load_dataset\<close> is library code, not under \<^verbatim>\<open>src/\<close>.
  Section 4.4: it fetches the first \<open>N\<close> records of a named split of a named dataset; an
  unresolvable dataset or split is a fatal error. The split argument is read as
  \<^verbatim>\<open>name\<close> (the whole split) or \<^verbatim>\<open>name[:N]\<close>.
\<close>

definition digit_of :: "char \<Rightarrow> nat option" where
  "digit_of c =
     (let k = (of_char c :: nat) in if 48 \<le> k \<and> k \<le> 57 then Some (k - 48) else None)"

fun nat_of_digits :: "nat \<Rightarrow> string \<Rightarrow> nat option" where
  "nat_of_digits acc [] = Some acc"
| "nat_of_digits acc (c # cs) =
     (case digit_of c of None \<Rightarrow> None | Some d \<Rightarrow> nat_of_digits (10 * acc + d) cs)"

definition parse_split :: "string \<Rightarrow> (string \<times> nat option) option" where
  "parse_split s =
     (let name = takeWhile (\<lambda>c. c \<noteq> CHR ''['') s;
          rest = dropWhile (\<lambda>c. c \<noteq> CHR ''['') s
      in if rest = [] then Some (name, None)
         else if take 2 rest = ''[:'' \<and> 3 < length rest \<and> last rest = CHR '']''
         then (case nat_of_digits 0 (butlast (drop 2 rest)) of
                 None \<Rightarrow> None
               | Some n \<Rightarrow> Some (name, Some n))
         else None)"

definition spec_load_dataset :: "hub \<Rightarrow> string \<Rightarrow> string \<Rightarrow> exn + row list" where
  "spec_load_dataset H ident split =
     (case parse_split split of
        None \<Rightarrow> Inl (ResolutionError split)
      | Some (name, limit) \<Rightarrow>
          (case hub_datasets H ident name of
             None \<Rightarrow> Inl (ResolutionError ident)
           | Some rows \<Rightarrow>
               Inr (case limit of None \<Rightarrow> rows | Some n \<Rightarrow> take n rows)))"

text \<open>
  Modelled from the spec: the trainer is library code, not under \<^verbatim>\<open>src/\<close>.
  Section 4.5: the loop iterates the dataset for \<open>num_train_epochs\<close> passes, batching
  \<open>per_device_train_batch_size\<close> examples per step, accumulating gradients over
  \<open>gradient_accumulation_steps\<close> steps before each optimizer update, and logging every
  \<open>logging_steps\<close> steps. The counters of one replica are kept; tensors are not.
\<close>

record train_state =
  accumulated :: nat
  optimizer_steps :: nat
  logged :: nat

fun batches :: "nat \<Rightarrow> 'a list \<Rightarrow> 'a list list" where
  "batches b xs = (if b = 0 \<or> xs = [] then [] else take b xs # batches b (drop b xs))"

definition optimizer_update :: "TrainingArguments \<Rightarrow> train_state \<Rightarrow> train_state" where
  "optimizer_update args st =
     (let n = Suc (optimizer_steps st)
      in st\<lparr>accumulated := 0, optimizer_steps := n,
            logged := (if logging_steps args \<noteq> 0 \<and> n mod logging_steps args = 0
                       then Suc (logged st) else logged st)\<rparr>)"

definition training_step :: "TrainingArguments \<Rightarrow> 'a list \<Rightarrow> train_state \<Rightarrow> train_state" where
  "training_step args b st =
     (if gradient_accumulation_steps args \<le> Suc (accumulated st)
      then optimizer_update args st
      else st\<lparr>accumulated := Suc (accumulated st)\<rparr>)"

definition train_epoch :: "TrainingArguments \<Rightarrow> 'a list \<Rightarrow> train_state \<Rightarrow> train_state" where
  "train_epoch args ds st =
     fold (training_step args) (batches (per_device_train_batch_size args) ds) st"

definition train_loop :: "TrainingArguments \<Rightarrow> 'a list \<Rightarrow> train_state" where
  "train_loop args ds =
     (train_epoch args ds ^^ num_train_epochs args)
       \<lparr>accumulated = 0, optimizer_steps = 0, logged = 0\<rparr>"

record trainer =
  tr_model :: model
  tr_dataset :: "row list"
  tr_peft_config :: LoraConfig
  tr_args :: TrainingArguments
  tr_formatting_func :: "example \<Rightarrow> pyerr + string list"
  tr_state :: train_state

definition spec_SFTTrainer ::
  "model \<Rightarrow> row list \<Rightarrow> LoraConfig \<Rightarrow> TrainingArguments \<Rightarrow>
   (example \<Rightarrow> pyerr + string list) \<Rightarrow> (exn + trainer) \<times> written" where
  "spec_SFTTrainer m ds pc args f =
     (Inr \<lparr>tr_model = m, tr_dataset = ds, tr_peft_config = pc, tr_args = args,
           tr_formatting_func = f,
           tr_state = \<lparr>accumulated = 0, optimizer_steps = 0, logged = 0\<rparr>\<rparr>, [])"

text \<open>
  Modelled from the spec: checkpointing is library code, not under \<^verbatim>\<open>src/\<close>.
  Section 4.5: model state is snapshotted to the output directory at a configurable
  cadence, once per epoch for the save strategy \<^verbatim>\<open>epoch\<close>.
\<close>

definition epoch_checkpoints :: "TrainingArguments \<Rightarrow> model \<Rightarrow> written" where
  "epoch_checkpoints args m =
     (if save_strategy args = ''epoch''
      then map (\<lambda>e. (output_dir args, Checkpoint e m)) [1..<Suc (num_train_epochs args)]
      else [])"

definition spec_train :: "trainer \<Rightarrow> (exn + trainer) \<times> written" where
  "spec_train t =
     (if per_device_train_batch_size (tr_args t) = 0
      then (Inl (ConfigurationError ''per_device_train_batch_size''), [])
      else (Inr (t\<lparr>tr_state := train_loop (tr_args t) (tr_dataset t)\<rparr>),
            epoch_checkpoints (tr_args t) (tr_model t)))"

text \<open>
  Modelled from the spec: the two \<^verbatim>\<open>save_pretrained\<close> methods are library code, not under
  \<^verbatim>\<open>src/\<close>. Section 4.5, final side effect: the adapter-only parameter subset of the
  model and the tokenizer are serialized to the directory.
\<close>

definition spec_model_save_pretrained :: "model \<Rightarrow> string \<Rightarrow> (exn + unit) \<times> written" where
  "spec_model_save_pretrained m dir =
     (Inr (), [(dir, AdapterFiles (filter adapter (parameters m)))])"

definition spec_tokenizer_save_pretrained ::
  "tokenizer \<Rightarrow> string \<Rightarrow> (exn + unit) \<times> written" where
  "spec_tokenizer_save_pretrained t dir = (Inr (), [(dir, TokenizerFiles t)])"

definition spec_libs :: "hub \<Rightarrow> (string \<Rightarrow> bool) \<Rightarrow> trainer libs" where
  "spec_libs H targets =
     \<lparr>from_pretrained_model = spec_from_pretrained_model H,
      prepare_model_for_kbit_training = spec_prepare_model_for_kbit_training,
      get_peft_model = spec_get_peft_model targets,
      from_pretrained_tokenizer = spec_from_pretrained_tokenizer H,
      load_dataset = spec_load_dataset H,
      SFTTrainer = spec_SFTTrainer,
      train = spec_train,
      trainer_model = tr_model,
      model_save_pretrained = spec_model_save_pretrained,
      tokenizer_save_pretrained = spec_tokenizer_save_pretrained\<rparr>"

section \<open>Concrete worlds\<close>

text \<open>
  A small hub: a model with two parameters, the tokenizer of \<^verbatim>\<open>facebook/opt-125m\<close>
  (which defines a padding token of its own) and a three-record train split.
\<close>

definition opt_tokenizer :: tokenizer where
  "opt_tokenizer = \<lparr>pad_token = Some ''<pad>'', eos_token = Some ''</s>''\<rparr>"

definition say_hi :: row where
  "say_hi = [''instruction'' \<mapsto> ''Say hi'', ''input'' \<mapsto> [], ''output'' \<mapsto> ''Hi there'']"

definition small_hub :: hub where
  "small_hub =
     \<lparr>hub_models = [''facebook/opt-125m'' \<mapsto> [''q_proj'', ''layer_norm'']],
      hub_tokenizers = [''facebook/opt-125m'' \<mapsto> opt_tokenizer],
      hub_datasets = (\<lambda>ident. if ident = ''tatsu-lab/alpaca''
                        then [''train'' \<mapsto> [say_hi, say_hi, say_hi]] else Map.empty)\<rparr>"

text \<open>The same hub without the dataset: its identifier does not resolve.\<close>

definition hub_without_dataset :: hub where
  "hub_without_dataset = small_hub\<lparr>hub_datasets := (\<lambda>ident. Map.empty)\<rparr>"

text \<open>The small hub with a train split of 501 records.\<close>

definition big_hub :: hub where
  "big_hub = small_hub\<lparr>hub_datasets := (\<lambda>ident. if ident = ''tatsu-lab/alpaca''
                        then [''train'' \<mapsto> replicate 501 say_hi] else Map.empty)\<rparr>"

definition is_projection :: "string \<Rightarrow> bool" where
  "is_projection n = (n = ''q_proj'')"





definition w0 :: world where
  "w0 = \<lparr>trace = [], files = []\<rparr>"


section \<open>Properties of the formatting function\<close>

lemma field_at_batch:
  "field_at (batch ins inps outs) ''instruction'' i =
     (if i < length ins then Inr (ins ! i) else Inl IndexError)"
  "field_at (batch ins inps outs) ''input'' i =
     (if i < length inps then Inr (inps ! i) else Inl IndexError)"
  "field_at (batch ins inps outs) ''output'' i =
     (if i < length outs then Inr (outs ! i) else Inl IndexError)"
  by (simp_all add: field_at_def dict_getitem_def batch_def)

lemma format_text_batch:
  "format_text (batch ins inps outs) i =
     (if i < length ins \<and> i < length inps \<and> i < length outs
      then Inr (spec_prompt_template (ins ! i) (inps ! i) (outs ! i))
      else Inl IndexError)"
  by (simp add: format_text_def field_at_batch spec_prompt_template_def)

lemma format_loop_all_ok:
  "(\<And>i. i \<in> set idxs \<Longrightarrow> format_text ex i = Inr (g i)) \<Longrightarrow>
   format_loop ex idxs acc = Inr (acc @ map g idxs)"
  by (induction idxs arbitrary: acc) simp_all

lemma format_loop_raises:
  "(\<And>i. i \<in> set idxs \<Longrightarrow> format_text ex i = Inl e \<or> (\<exists>t. format_text ex i = Inr t)) \<Longrightarrow>
   \<exists>i \<in> set idxs. format_text ex i = Inl e \<Longrightarrow>
   format_loop ex idxs acc = Inl e"
proof (induction idxs arbitrary: acc)
  case Nil
  then show ?case by simp
next
  case (Cons j rest)
  show ?case
  proof (cases "format_text ex j")
    case (Inl e')
    with Cons.prems(1)[of j] show ?thesis by auto
  next
    case (Inr t)
    with Cons.prems(2) have "\<exists>i \<in> set rest. format_text ex i = Inl e" by auto
    with Cons.IH[of "acc @ [t]"] Cons.prems(1) Inr show ?thesis by simp
  qed
qed

lemma format_loop_cong:
  "(\<And>i. i \<in> set idxs \<Longrightarrow> format_text ex1 i = format_text ex2 i) \<Longrightarrow>
   format_loop ex1 idxs acc = format_loop ex2 idxs acc"
  by (induction idxs arbitrary: acc) (simp_all split: sum.splits)

lemma formatting_batch_ok:
  assumes "length ins \<le> length inps" "length ins \<le> length outs"
  shows "formatting_prompts_func (batch ins inps outs) =
     Inr (map (\<lambda>i. spec_prompt_template (ins ! i) (inps ! i) (outs ! i)) [0..<length ins])"
proof -
  have "format_loop (batch ins inps outs) [0..<length ins] [] =
     Inr ([] @ map (\<lambda>i. spec_prompt_template (ins ! i) (inps ! i) (outs ! i)) [0..<length ins])"
    using assms by (intro format_loop_all_ok) (simp add: format_text_batch)
  then show ?thesis
    by (simp add: formatting_prompts_func_def dict_getitem_def batch_def)
qed

lemma formatting_batch_raises:
  assumes "length inps < length ins \<or> length outs < length ins"
  shows "formatting_prompts_func (batch ins inps outs) = Inl IndexError"
proof -
  let ?j = "min (length inps) (length outs)"
  have j: "?j < length ins" using assms by auto
  have "format_loop (batch ins inps outs) [0..<length ins] [] = Inl IndexError"
  proof (rule format_loop_raises)
    fix i assume "i \<in> set [0..<length ins]"
    then show "format_text (batch ins inps outs) i = Inl IndexError \<or>
       (\<exists>t. format_text (batch ins inps outs) i = Inr t)"
      by (simp add: format_text_batch)
  next
    show "\<exists>i \<in> set [0..<length ins]. format_text (batch ins inps outs) i = Inl IndexError"
      using j by (intro bexI[of _ ?j]) (auto simp: format_text_batch)
  qed
  then show ?thesis
    by (simp add: formatting_prompts_func_def dict_getitem_def batch_def)
qed

lemma template_splits_at_response:
  "spec_prompt_template a b c = spec_prompt_template a b [] @ c"
  by (simp add: spec_prompt_template_def)

lemma template_prefix_ends_with_marker:
  "suffix ''### Response:\<newline>'' (spec_prompt_template a b [])"
  unfolding spec_prompt_template_def suffix_def
  by (rule exI[of _ "''Below is an instruction that describes a task, paired with an input that provides further context. Write a response that appropriately completes the request.''
     @ ''\<newline>\<newline>### Instruction:\<newline>'' @ a @ ''\<newline>\<newline>### Input:\<newline>'' @ b @ ''\<newline>\<newline>''"]) simp

text \<open>
  Claim C1. For every record of a batch whose \<^verbatim>\<open>input\<close> and \<^verbatim>\<open>output\<close> columns cover
  the \<^verbatim>\<open>instruction\<close> column, the formatting function returns one string per record,
  and the string of record \<open>i\<close> is, character for character, the template of the
  specification with the three fields of that record substituted. An empty
  \<^verbatim>\<open>input\<close> keeps the segment \<^verbatim>\<open>\n\n### Input:\n\<close>, as the instance below shows.
\<close>

theorem formatting_matches_template:
  assumes "length ins \<le> length inps" and "length ins \<le> length outs" and "i < length ins"
  shows "\<exists>texts. formatting_prompts_func (batch ins inps outs) = Inr texts
           \<and> length texts = length ins
           \<and> texts ! i = spec_prompt_template (ins ! i) (inps ! i) (outs ! i)"
  using assms by (simp add: formatting_batch_ok)

theorem formatting_matches_template_witness:
  "formatting_prompts_func (batch [''Say hi''] [[]] [''Hi there'']) =
     Inr [''Below is an instruction that describes a task, paired with an input that provides further context. Write a response that appropriately completes the request.\<newline>\<newline>### Instruction:\<newline>Say hi\<newline>\<newline>### Input:\<newline>\<newline>\<newline>### Response:\<newline>Hi there'']"
proof -
  obtain texts where t: "formatting_prompts_func (batch [''Say hi''] [[]] [''Hi there'']) = Inr texts"
    "length texts = length [''Say hi'']"
    "texts ! 0 = spec_prompt_template ([''Say hi''] ! 0) ([[]] ! 0) ([''Hi there''] ! 0)"
    using formatting_matches_template [of "[''Say hi'']" "[[]]" "[''Hi there'']" 0] by auto
  from t(2) obtain x where "texts = [x]" by (cases texts) auto
  with t show ?thesis by (simp add: spec_prompt_template_def)
qed

text \<open>
  Claim C2 reads the formatting function as a mapping from one record to one string.
  The source iterates \<^verbatim>\<open>range(len(example['instruction']))\<close>: called on one record whose
  fields are text, it walks the characters of the instruction. On the record of the
  specification's scenario the empty \<^verbatim>\<open>input\<close> has no character 0 and \<^verbatim>\<open>IndexError\<close> is
  raised; on a record with two-character fields two strings come back.
\<close>

theorem single_record_counterexample:
  "formatting_prompts_func (single_record ''Say hi'' [] ''Hi there'') = Inl IndexError
   \<and> formatting_prompts_func (single_record ''ab'' ''cd'' ''ef'') =
       Inr [spec_prompt_template ''a'' ''c'' ''e'', spec_prompt_template ''b'' ''d'' ''f'']"
  by (simp add: formatting_prompts_func_def dict_getitem_def single_record_def
      format_text_def field_at_def upt_rec spec_prompt_template_def)

text \<open>
  Claim C2, amended. The formatting function is a pure mapping from a batch in column
  form to a list of strings: its result is determined by the \<^verbatim>\<open>instruction\<close>,
  \<^verbatim>\<open>input\<close> and \<^verbatim>\<open>output\<close> entries of its argument alone, and on a batch that holds one
  record it returns exactly one string, the template with the fields of that record.
\<close>

theorem formatting_pure_on_batches:
  "(ex1 ''instruction'' = ex2 ''instruction'' \<and> ex1 ''input'' = ex2 ''input''
      \<and> ex1 ''output'' = ex2 ''output''
      \<longrightarrow> formatting_prompts_func ex1 = formatting_prompts_func ex2)
   \<and> formatting_prompts_func (batch [a] [b] [c]) = Inr [spec_prompt_template a b c]"
proof (intro conjI impI)
  assume eq: "ex1 ''instruction'' = ex2 ''instruction'' \<and> ex1 ''input'' = ex2 ''input''
      \<and> ex1 ''output'' = ex2 ''output''"
  then have f: "field_at ex1 ''instruction'' = field_at ex2 ''instruction''"
    "field_at ex1 ''input'' = field_at ex2 ''input''"
    "field_at ex1 ''output'' = field_at ex2 ''output''"
    by (auto simp: field_at_def dict_getitem_def fun_eq_iff)
  have "format_text ex1 i = format_text ex2 i" for i
    unfolding format_text_def f by (rule refl)
  then have l: "format_loop ex1 idxs [] = format_loop ex2 idxs []" for idxs
    by (intro format_loop_cong) simp
  from eq have d: "dict_getitem ex1 ''instruction'' = dict_getitem ex2 ''instruction''"
    by (simp add: dict_getitem_def)
  show "formatting_prompts_func ex1 = formatting_prompts_func ex2"
    unfolding formatting_prompts_func_def d l by (rule refl)
next
  show "formatting_prompts_func (batch [a] [b] [c]) = Inr [spec_prompt_template a b c]"
    using formatting_batch_ok [of "[a]" "[b]" "[c]"] by simp
qed

theorem formatting_pure_on_batches_witness:
  "formatting_prompts_func ((batch [''Say hi''] [[]] [''Hi there''])(''text'' \<mapsto> PStr ''x''))
     = formatting_prompts_func (batch [''Say hi''] [[]] [''Hi there''])
   \<and> formatting_prompts_func (batch [''Say hi''] [[]] [''Hi there''])
       = Inr [spec_prompt_template ''Say hi'' [] ''Hi there'']"
  using formatting_pure_on_batches
    [of "(batch [''Say hi''] [[]] [''Hi there''])(''text'' \<mapsto> PStr ''x'')"
        "batch [''Say hi''] [[]] [''Hi there'']" "''Say hi''" "[]" "''Hi there''"]
  by (simp add: batch_def)

text \<open>
  Claim C7. Two records with the same instruction and the same input, formatted in
  any two batches, give strings with a common prefix that ends with the marker
  \<^verbatim>\<open>### Response:\n\<close>; each string is that prefix followed by the output of its record.
\<close>

theorem output_only_changes_tail:
  assumes "length ins1 \<le> length inps1" and "length ins1 \<le> length outs1"
    and "length ins2 \<le> length inps2" and "length ins2 \<le> length outs2"
    and "i < length ins1" and "j < length ins2"
    and "ins1 ! i = ins2 ! j" and "inps1 ! i = inps2 ! j"
  shows "\<exists>texts1 texts2 prefix.
           formatting_prompts_func (batch ins1 inps1 outs1) = Inr texts1
         \<and> formatting_prompts_func (batch ins2 inps2 outs2) = Inr texts2
         \<and> suffix ''### Response:\<newline>'' prefix
         \<and> texts1 ! i = prefix @ outs1 ! i
         \<and> texts2 ! j = prefix @ outs2 ! j"
proof -
  let ?p = "spec_prompt_template (ins1 ! i) (inps1 ! i) []"
  have "map (\<lambda>k. spec_prompt_template (ins1 ! k) (inps1 ! k) (outs1 ! k)) [0..<length ins1] ! i
          = ?p @ outs1 ! i"
    using assms(5) by (simp add: template_splits_at_response [symmetric])
  moreover have "map (\<lambda>k. spec_prompt_template (ins2 ! k) (inps2 ! k) (outs2 ! k)) [0..<length ins2] ! j
          = ?p @ outs2 ! j"
    using assms(6,7,8) by (simp add: template_splits_at_response [symmetric])
  ultimately show ?thesis
    using formatting_batch_ok [OF assms(1,2)] formatting_batch_ok [OF assms(3,4)]
      template_prefix_ends_with_marker [of "ins1 ! i" "inps1 ! i"]
    by blast
qed

theorem output_only_changes_tail_witness:
  "\<exists>texts1 texts2 prefix.
       formatting_prompts_func (batch [''Say hi''] [[]] [''Hi there'']) = Inr texts1
     \<and> formatting_prompts_func (batch [''Say hi''] [[]] [''Hello'']) = Inr texts2
     \<and> suffix ''### Response:\<newline>'' prefix
     \<and> texts1 ! 0 = prefix @ ''Hi there''
     \<and> texts2 ! 0 = prefix @ ''Hello''"
  using output_only_changes_tail
    [of "[''Say hi'']" "[[]]" "[''Hi there'']" "[''Say hi'']" "[[]]" "[''Hello'']" 0 0]
  by simp

text \<open>
  Claim C10. On a batch whose three fields are lists, when the \<^verbatim>\<open>input\<close> and \<^verbatim>\<open>output\<close>
  lists are each at least as long as the \<^verbatim>\<open>instruction\<close> list the formatting function
  returns the list that holds, for each entry of \<^verbatim>\<open>instruction\<close> in order, the template
  formatted with the entries at that position, exactly one string per entry; otherwise
  an index is out of range and it raises \<^verbatim>\<open>IndexError\<close>.
\<close>

theorem formatting_batch_well_defined:
  "(length ins \<le> length inps \<and> length ins \<le> length outs \<longrightarrow>
      formatting_prompts_func (batch ins inps outs) =
        Inr (map (\<lambda>i. spec_prompt_template (ins ! i) (inps ! i) (outs ! i)) [0..<length ins])
      \<and> length (map (\<lambda>i. spec_prompt_template (ins ! i) (inps ! i) (outs ! i))
                  [0..<length ins]) = length ins)
   \<and> (\<not> (length ins \<le> length inps \<and> length ins \<le> length outs) \<longrightarrow>
      formatting_prompts_func (batch ins inps outs) = Inl IndexError)"
proof (intro conjI impI)
  assume "length ins \<le> length inps \<and> length ins \<le> length outs"
  then show "formatting_prompts_func (batch ins inps outs) =
        Inr (map (\<lambda>i. spec_prompt_template (ins ! i) (inps ! i) (outs ! i)) [0..<length ins])"
    by (simp add: formatting_batch_ok)
next
  show "length (map (\<lambda>i. spec_prompt_template (ins ! i) (inps ! i) (outs ! i))
                  [0..<length ins]) = length ins"
    by simp
next
  assume "\<not> (length ins \<le> length inps \<and> length ins \<le> length outs)"
  then have "length inps < length ins \<or> length outs < length ins" by auto
  then show "formatting_prompts_func (batch ins inps outs) = Inl IndexError"
    by (rule formatting_batch_raises)
qed

theorem formatting_batch_well_defined_witness:
  "formatting_prompts_func (batch [''a'', ''b''] [''c'', ''d''] [''e'', ''f'', ''g'']) =
     Inr [''Below is an instruction that describes a task, paired with an input that provides further context. Write a response that appropriately completes the request.\<newline>\<newline>### Instruction:\<newline>a\<newline>\<newline>### Input:\<newline>c\<newline>\<newline>### Response:\<newline>e'',
          ''Below is an instruction that describes a task, paired with an input that provides further context. Write a response that appropriately completes the request.\<newline>\<newline>### Instruction:\<newline>b\<newline>\<newline>### Input:\<newline>d\<newline>\<newline>### Response:\<newline>f'']
   \<and> formatting_prompts_func (batch [''a'', ''b''] [''c''] [''e'', ''f'']) = Inl IndexError"
  using formatting_batch_well_defined [of "[''a'', ''b'']" "[''c'', ''d'']" "[''e'', ''f'', ''g'']"]
    formatting_batch_well_defined [of "[''a'', ''b'']" "[''c'']" "[''e'', ''f'']"]
  by (simp add: upt_rec spec_prompt_template_def)

section \<open>Properties of the script\<close>

lemmas step_defs = bind_step_def lib_call_def statement_def returns_def writing_call_def

lemmas script_defs = finetune_model_def model_acquisition_def tokenizer_acquisition_def
  dataset_acquisition_def training_orchestration_def

lemma new_calls_append [simp]:
  "new_calls w (w'\<lparr>trace := trace w @ xs\<rparr>) = xs"
  by (simp add: new_calls_def)

lemma new_calls_same [simp]: "new_calls w w = []"
  by (simp add: new_calls_def)

subsection \<open>The padding token\<close>

text \<open>
  Claim C3 has the padding token aliased only when none is defined and an existing one
  left unchanged. Line 79 assigns \<^verbatim>\<open>tokenizer.pad_token = tokenizer.eos_token\<close> without a
  test: a tokenizer loaded with the padding token \<^verbatim>\<open><pad>\<close> and the end-of-sequence token
  \<^verbatim>\<open></s>\<close> (those of \<^verbatim>\<open>facebook/opt-125m\<close>) leaves the block with \<^verbatim>\<open></s>\<close> as its
  padding token.
\<close>

theorem pad_token_overwritten_counterexample:
  "from_pretrained_tokenizer (spec_libs small_hub is_projection) MODEL_ID True =
     Inr \<lparr>pad_token = Some ''<pad>'', eos_token = Some ''</s>''\<rparr>
   \<and> fst (tokenizer_acquisition (spec_libs small_hub is_projection) w0) =
     Inr \<lparr>pad_token = Some ''</s>'', eos_token = Some ''</s>''\<rparr>"
  by (simp add: tokenizer_acquisition_def step_defs spec_libs_def
      spec_from_pretrained_tokenizer_def small_hub_def MODEL_ID_def opt_tokenizer_def)

text \<open>
  Claim C3, amended. Tokenizer acquisition assigns the end-of-sequence token to the
  padding token unconditionally: whatever tokenizer the load returns, with or without
  a padding token of its own, the tokenizer acquired is that tokenizer with its padding
  token equal to its end-of-sequence token, which is unchanged.
\<close>

theorem pad_token_always_eos:
  assumes "from_pretrained_tokenizer L MODEL_ID True = Inr t"
  shows "fst (tokenizer_acquisition L w) = Inr (t\<lparr>pad_token := eos_token t\<rparr>)
         \<and> pad_token (t\<lparr>pad_token := eos_token t\<rparr>) = eos_token t
         \<and> eos_token (t\<lparr>pad_token := eos_token t\<rparr>) = eos_token t"
  using assms by (simp add: tokenizer_acquisition_def step_defs)

theorem pad_token_always_eos_witness:
  "fst (tokenizer_acquisition (spec_libs small_hub is_projection) w0) =
     Inr (opt_tokenizer\<lparr>pad_token := eos_token opt_tokenizer\<rparr>)
   \<and> pad_token (opt_tokenizer\<lparr>pad_token := eos_token opt_tokenizer\<rparr>) = Some ''</s>''"
proof -
  have h: "from_pretrained_tokenizer (spec_libs small_hub is_projection) MODEL_ID True
             = Inr opt_tokenizer"
    by (simp add: spec_libs_def spec_from_pretrained_tokenizer_def small_hub_def MODEL_ID_def)
  show ?thesis
    using pad_token_always_eos [OF h, of w0] by (simp add: opt_tokenizer_def)
qed

subsection \<open>The dataset slice\<close>

lemma parse_train_500: "parse_split ''train[:500]'' = Some (''train'', Some 500)"
  by (simp add: parse_split_def digit_of_def)

text \<open>
  Claim C4. With the dataset library as the specification describes it, dataset
  acquisition returns the first 500 records of the train split: exactly 500 records
  when the split has at least 500, and fewer only when the split has fewer than 500,
  in which case it is the whole split.
\<close>

theorem dataset_acquisition_first_500:
  assumes "load_dataset L = spec_load_dataset H"
    and "hub_datasets H DATASET_ID ''train'' = Some rows"
  shows "fst (dataset_acquisition L w) = Inr (take 500 rows)
         \<and> (500 \<le> length rows \<longrightarrow> length (take 500 rows) = 500)
         \<and> (length (take 500 rows) < 500 \<longrightarrow> length rows < 500 \<and> take 500 rows = rows)"
  using assms
  by (auto simp: dataset_acquisition_def step_defs spec_load_dataset_def parse_train_500)

theorem dataset_acquisition_first_500_witness:
  "fst (dataset_acquisition (spec_libs big_hub is_projection) w0) = Inr (replicate 500 say_hi)
   \<and> fst (dataset_acquisition (spec_libs small_hub is_projection) w0) = Inr [say_hi, say_hi, say_hi]"
proof -
  have l: "load_dataset (spec_libs H is_projection) = spec_load_dataset H" for H
    by (simp add: spec_libs_def)
  have b: "hub_datasets big_hub DATASET_ID ''train'' = Some (replicate 501 say_hi)"
    by (simp add: big_hub_def small_hub_def DATASET_ID_def)
  have s: "hub_datasets small_hub DATASET_ID ''train'' = Some [say_hi, say_hi, say_hi]"
    by (simp add: small_hub_def DATASET_ID_def)
  show ?thesis
    using dataset_acquisition_first_500 [OF l b, of w0]
      dataset_acquisition_first_500 [OF l s, of w0]
    by simp
qed

subsection \<open>The model\<close>

lemma model_acquisition_order:
  "prefix (map fst (new_calls w (snd (model_acquisition L w)))) model_steps"
  by (simp add: model_acquisition_def step_defs model_steps_def split: sum.splits)

text \<open>
  Claim C5. Whatever the libraries do, the calls of model acquisition are an initial
  part of the sequence: load with the quantization configuration, \<^verbatim>\<open>use_cache = False\<close>,
  \<^verbatim>\<open>pretraining_tp = 1\<close>, k-bit-training preparation, adapter injection; when the three
  library calls return, the preparation is applied to the loaded model with the two
  attributes set, the adapters are injected into the prepared model, and the result
  of the injection is the model acquired. With the libraries as the specification
  describes them and a model identifier that resolves, all calls are made, in this
  order and without an exception, and in the model returned exactly the adapter
  parameters are trainable, every base parameter being frozen and quantized.
\<close>

theorem model_acquisition_steps:
  "prefix (map fst (new_calls w (snd (model_acquisition L w)))) model_steps
   \<and> (from_pretrained_model L MODEL_ID bnb_config ''auto'' True = Inr m0
      \<and> prepare_model_for_kbit_training L
            (m0\<lparr>config := (config m0)\<lparr>use_cache := False, pretraining_tp := Some 1\<rparr>\<rparr>) = Inr m1
      \<and> get_peft_model L m1 peft_config = Inr m2
      \<longrightarrow> fst (model_acquisition L w) = Inr m2
        \<and> map fst (new_calls w (snd (model_acquisition L w))) = model_steps)
   \<and> (from_pretrained_model L = spec_from_pretrained_model H
      \<and> prepare_model_for_kbit_training L = spec_prepare_model_for_kbit_training
      \<and> get_peft_model L = spec_get_peft_model targets
      \<and> hub_models H MODEL_ID = Some names
      \<longrightarrow> (\<exists>m. fst (model_acquisition L w) = Inr m
             \<and> map fst (new_calls w (snd (model_acquisition L w))) = model_steps
             \<and> (\<forall>x \<in> set (new_calls w (snd (model_acquisition L w))). snd x = Returned)
             \<and> use_cache (config m) = False
             \<and> pretraining_tp (config m) = Some 1
             \<and> (\<forall>p \<in> set (parameters m).
                   requires_grad p = adapter p \<and> (\<not> adapter p \<longrightarrow> quantized p))))"
proof (intro conjI impI)
  show "prefix (map fst (new_calls w (snd (model_acquisition L w)))) model_steps"
    by (rule model_acquisition_order)
next
  assume "from_pretrained_model L MODEL_ID bnb_config ''auto'' True = Inr m0
      \<and> prepare_model_for_kbit_training L
            (m0\<lparr>config := (config m0)\<lparr>use_cache := False, pretraining_tp := Some 1\<rparr>\<rparr>) = Inr m1
      \<and> get_peft_model L m1 peft_config = Inr m2"
  then show "fst (model_acquisition L w) = Inr m2"
    and "map fst (new_calls w (snd (model_acquisition L w))) = model_steps"
    by (simp_all add: model_acquisition_def step_defs model_steps_def)
next
  assume a: "from_pretrained_model L = spec_from_pretrained_model H
      \<and> prepare_model_for_kbit_training L = spec_prepare_model_for_kbit_training
      \<and> get_peft_model L = spec_get_peft_model targets
      \<and> hub_models H MODEL_ID = Some names"
  then show "\<exists>m. fst (model_acquisition L w) = Inr m
             \<and> map fst (new_calls w (snd (model_acquisition L w))) = model_steps
             \<and> (\<forall>x \<in> set (new_calls w (snd (model_acquisition L w))). snd x = Returned)
             \<and> use_cache (config m) = False
             \<and> pretraining_tp (config m) = Some 1
             \<and> (\<forall>p \<in> set (parameters m).
                   requires_grad p = adapter p \<and> (\<not> adapter p \<longrightarrow> quantized p))"
    by (auto simp: model_acquisition_def step_defs model_steps_def
        spec_from_pretrained_model_def spec_prepare_model_for_kbit_training_def
        spec_get_peft_model_def lora_params_def bnb_config_def)
qed

theorem model_acquisition_steps_witness:
  "\<exists>m. fst (model_acquisition (spec_libs small_hub is_projection) w0) = Inr m
     \<and> map fst (new_calls w0 (snd (model_acquisition (spec_libs small_hub is_projection) w0)))
         = model_steps
     \<and> parameters m =
         [\<lparr>pname = ''q_proj'', adapter = False, requires_grad = False, quantized = True\<rparr>,
          \<lparr>pname = ''layer_norm'', adapter = False, requires_grad = False, quantized = True\<rparr>,
          \<lparr>pname = ''q_proj.lora_A'', adapter = True, requires_grad = True, quantized = False\<rparr>,
          \<lparr>pname = ''q_proj.lora_B'', adapter = True, requires_grad = True, quantized = False\<rparr>]
     \<and> (\<forall>p \<in> set (parameters m).
           requires_grad p = adapter p \<and> (\<not> adapter p \<longrightarrow> quantized p))"
proof -
  have h: "from_pretrained_model (spec_libs small_hub is_projection)
             = spec_from_pretrained_model small_hub
      \<and> prepare_model_for_kbit_training (spec_libs small_hub is_projection)
             = spec_prepare_model_for_kbit_training
      \<and> get_peft_model (spec_libs small_hub is_projection) = spec_get_peft_model is_projection
      \<and> hub_models small_hub MODEL_ID = Some [''q_proj'', ''layer_norm'']"
    by (simp add: spec_libs_def small_hub_def MODEL_ID_def)
  have p: "fst (model_acquisition (spec_libs small_hub is_projection) w0) =
     Inr \<lparr>config = \<lparr>use_cache = False, pretraining_tp = Some 1\<rparr>,
        parameters =
         [\<lparr>pname = ''q_proj'', adapter = False, requires_grad = False, quantized = True\<rparr>,
          \<lparr>pname = ''layer_norm'', adapter = False, requires_grad = False, quantized = True\<rparr>,
          \<lparr>pname = ''q_proj.lora_A'', adapter = True, requires_grad = True, quantized = False\<rparr>,
          \<lparr>pname = ''q_proj.lora_B'', adapter = True, requires_grad = True, quantized = False\<rparr>],
        gradient_checkpointing = True\<rparr>"
    by (simp add: model_acquisition_def step_defs spec_libs_def small_hub_def MODEL_ID_def
        spec_from_pretrained_model_def spec_prepare_model_for_kbit_training_def
        spec_get_peft_model_def lora_params_def bnb_config_def is_projection_def)
  from model_acquisition_steps [of w0 "spec_libs small_hub is_projection" _ _ _ small_hub
      is_projection "[''q_proj'', ''layer_norm'']"] h
  show ?thesis unfolding p by auto
qed

subsection \<open>The number of optimizer steps\<close>

declare batches.simps [simp del]

lemma length_batches_4: "length xs = 4 * k \<Longrightarrow> length (batches 4 xs) = k"
proof (induction k arbitrary: xs)
  case 0
  then show ?case by (subst batches.simps) simp
next
  case (Suc k)
  then have "xs \<noteq> []" and "length (drop 4 xs) = 4 * k" by auto
  with Suc.IH [of "drop 4 xs"] show ?case by (subst batches.simps) simp
qed

lemma fold_training_step_every_batch:
  "gradient_accumulation_steps args = 1 \<Longrightarrow>
   optimizer_steps (fold (training_step args) bs st) = optimizer_steps st + length bs"
  by (induction bs arbitrary: st) (simp_all add: training_step_def optimizer_update_def Let_def)

text \<open>
  Claim C6. The configuration of the script has one epoch, a batch size of 4 per
  device and one accumulation step; with the training loop as the specification
  describes it, a replica that iterates a slice of 500 records makes exactly 125
  optimizer steps.
\<close>

theorem optimizer_steps_125:
  assumes "length ds = 500"
  shows "num_train_epochs training_arguments = 1
       \<and> per_device_train_batch_size training_arguments = 4
       \<and> gradient_accumulation_steps training_arguments = 1
       \<and> optimizer_steps (train_loop training_arguments ds) = 125"
proof -
  have c: "num_train_epochs training_arguments = 1"
    "per_device_train_batch_size training_arguments = 4"
    "gradient_accumulation_steps training_arguments = 1"
    by (simp_all add: training_arguments_def)
  from assms have "length ds = 4 * 125" by simp
  then have "length (batches 4 ds) = 125" by (rule length_batches_4)
  then have "optimizer_steps (train_loop training_arguments ds) = 125"
    by (simp add: train_loop_def train_epoch_def c fold_training_step_every_batch)
  with c show ?thesis by simp
qed

theorem optimizer_steps_125_witness:
  "length (replicate 500 say_hi) = 500
   \<and> optimizer_steps (train_loop training_arguments (replicate 500 say_hi)) = 125"
proof -
  have h: "length (replicate 500 say_hi) = 500" by simp
  show ?thesis using optimizer_steps_125 [OF h] h by simp
qed

subsection \<open>Persistence\<close>

lemma new_files_same [simp]: "new_files w w = []"
  by (simp add: new_files_def)

lemma new_calls_files_update [simp]:
  "new_calls w (w'\<lparr>files := fs\<rparr>) = new_calls w w'"
  by (simp add: new_calls_def)

lemma new_files_trace_update [simp]:
  "new_files w (w'\<lparr>trace := cs\<rparr>) = new_files w w'"
  by (simp add: new_files_def)

lemma new_files_append2 [simp]:
  "new_files w (w'\<lparr>files := files w @ xs\<rparr>) = xs"
  by (simp add: new_files_def)














text \<open>
  Claim C9. When the dataset load raises, the run ends with an exception and exit
  status 1, writes no file, makes no save call, never builds or runs the trainer, and
  calls the dataset load at most once. When the model and the tokenizer were acquired,
  the exception of the run is the one the dataset load raised, that call is the last
  one of the run, and it was made exactly once.
\<close>

theorem unresolvable_dataset_aborts:
  assumes "load_dataset L DATASET_ID ''train[:500]'' = Inl e"
  shows "(\<exists>e'. fst (finetune_model L w) = Inl e')
       \<and> fst (script_main L w) = 1
       \<and> files (snd (finetune_model L w)) = files w
       \<and> (\<forall>x \<in> set (new_calls w (snd (finetune_model L w))).
             \<not> is_save (fst x) \<and> fst x \<noteq> SFTTrainerInit \<and> fst x \<noteq> Train)
       \<and> length (filter (\<lambda>x. fst x = LoadDataset DATASET_ID ''train[:500]'')
                   (new_calls w (snd (finetune_model L w)))) \<le> 1
       \<and> ((\<exists>m. fst (model_acquisition L w) = Inr m)
            \<and> (\<exists>t. from_pretrained_tokenizer L MODEL_ID True = Inr t) \<longrightarrow>
             fst (finetune_model L w) = Inl e
           \<and> last (new_calls w (snd (finetune_model L w)))
                = (LoadDataset DATASET_ID ''train[:500]'', Raised e)
           \<and> length (filter (\<lambda>x. fst x = LoadDataset DATASET_ID ''train[:500]'')
                   (new_calls w (snd (finetune_model L w)))) = 1)"
  using assms
  by (auto simp: script_main_def script_defs step_defs split: sum.splits)

theorem unresolvable_dataset_aborts_witness:
  "fst (finetune_model (spec_libs hub_without_dataset is_projection) w0)
     = Inl (ResolutionError ''tatsu-lab/alpaca'')
   \<and> fst (script_main (spec_libs hub_without_dataset is_projection) w0) = 1
   \<and> files (snd (finetune_model (spec_libs hub_without_dataset is_projection) w0)) = []
   \<and> last (new_calls w0 (snd (finetune_model (spec_libs hub_without_dataset is_projection) w0)))
       = (LoadDataset DATASET_ID ''train[:500]'', Raised (ResolutionError ''tatsu-lab/alpaca''))"
proof -
  have d: "load_dataset (spec_libs hub_without_dataset is_projection) DATASET_ID ''train[:500]''
             = Inl (ResolutionError ''tatsu-lab/alpaca'')"
    by (simp add: spec_libs_def spec_load_dataset_def parse_split_def digit_of_def
        hub_without_dataset_def DATASET_ID_def)
  have m: "\<exists>m. fst (model_acquisition (spec_libs hub_without_dataset is_projection) w0) = Inr m"
    by (simp add: model_acquisition_def step_defs spec_libs_def small_hub_def
        hub_without_dataset_def MODEL_ID_def spec_from_pretrained_model_def
        spec_prepare_model_for_kbit_training_def spec_get_peft_model_def)
  have t: "\<exists>t. from_pretrained_tokenizer (spec_libs hub_without_dataset is_projection)
              MODEL_ID True = Inr t"
    by (simp add: spec_libs_def spec_from_pretrained_tokenizer_def small_hub_def
        hub_without_dataset_def MODEL_ID_def)
  show ?thesis
    using unresolvable_dataset_aborts [OF d, of w0] m t by (simp add: w0_def)
qed



end
